theory Spec2Isabelle
  imports Main
begin

section \<open>The site configuration module \<open>apps/www/astro.config.mjs\<close>\<close>

text \<open>
  The module imports three functions from packages that are not part of the repository
  (\<open>cloudflare\<close> from \<open>@astrojs/cloudflare\<close>, \<open>sitemap\<close> from \<open>@astrojs/sitemap\<close>,
  \<open>defineConfig\<close> from \<open>astro/config\<close>) and has one statement:
  \<^verbatim>\<open>
  export default defineConfig({
    site: "https://tedxuniversitasbrawijaya.com",
    adapter: cloudflare(),
    integrations: [sitemap()],
  });
  \<close>
  The three imported functions are parameters of the model: a function from the argument
  list to a returned or a thrown value. Everything else is the module's own: the object
  literal, the order of the calls, and the binding of the default export.

  The module is modelled twice. \<open>astro_config\<close> is the statement of lines 6 to 10 with
  the three names bound to functions of their arguments. \<open>astro_config_mjs\<close> is the whole
  file: the three import statements come first, a package may be missing, its code runs
  when it is loaded and when one of its functions is called, and that code may fail and
  may read and write the state outside the module. The two agree on packages that are
  already loaded and whose functions have no effect (\<open>preloaded_agrees\<close>).
\<close>

subsection \<open>Values\<close>

text \<open>
  The values the module builds: string literals, array literals and object literals (a list
  of properties in the order they are written). \<open>JExt\<close> holds a value made inside an
  imported package, which the module never inspects; \<open>JUndefined\<close> is what a function
  returns when it returns nothing.
\<close>

datatype 'x jsval =
    JUndefined
  | JStr string
  | JArr "'x jsval list"
  | JObj "(string \<times> 'x jsval) list"
  | JExt 'x

text \<open>
  A call into a package either returns a value or throws one; an import statement whose
  package cannot be found fails before any code runs.
\<close>

datatype 'x error = Thrown "'x jsval" | NotFound string

type_synonym 'x jsfun = "'x jsval list \<Rightarrow> 'x error + 'x jsval"

text \<open>The bindings of the three import statements (lines 1 to 3).\<close>

record 'x packages =
  cloudflare :: "'x jsfun"
  sitemap :: "'x jsfun"
  defineConfig :: "'x jsfun"

subsection \<open>State\<close>

text \<open>
  What exists around an evaluation of the module: the process environment, the command
  line, the files on disk (the documentation file among them), the global and module-level
  variables, the export table of the module, and a log of the calls made into the imported
  packages, oldest first.
\<close>

record 'x world =
  env_vars :: "string \<Rightarrow> string option"
  argv :: "string list"
  files :: "string \<Rightarrow> string option"
  globals :: "(string \<times> 'x jsval) list"
  exports :: "(string \<times> 'x jsval) list"
  trace :: "(string \<times> 'x jsval list) list"


text \<open>Calling an imported function: the call is logged, its outcome handed back.\<close>

definition call ::
  "string \<Rightarrow> 'x jsfun \<Rightarrow> 'x jsval list \<Rightarrow> 'x world \<Rightarrow> ('x error + 'x jsval) \<times> 'x world" where
  "call name f args w = (f args, w\<lparr>trace := trace w @ [(name, args)]\<rparr>)"

subsection \<open>The module\<close>

text \<open>
  The object literal of lines 6 to 10, given the values of the two constructor calls
  written inside it.
\<close>

definition config_object :: "'x jsval \<Rightarrow> 'x jsval \<Rightarrow> 'x jsval" where
  "config_object a s =
     JObj [(''site'', JStr ''https://tedxuniversitasbrawijaya.com''),
           (''adapter'', a),
           (''integrations'', JArr [s])]"

text \<open>
  Evaluating the module. The properties of the literal are evaluated in the order written,
  so \<open>cloudflare()\<close> runs first, then \<open>sitemap()\<close>, then \<open>defineConfig\<close> on the finished
  object; what \<open>defineConfig\<close> returns is bound to the default export. The module has no
  handler, so a value thrown by a call ends the evaluation there. The result is the value of
  the default export, or the value thrown.
\<close>

definition astro_config ::
  "'x packages \<Rightarrow> 'x world \<Rightarrow> ('x error + 'x jsval) \<times> 'x world" where
  "astro_config pk w =
     (case call ''cloudflare'' (cloudflare pk) [] w of
        (Inl e, w1) \<Rightarrow> (Inl e, w1)
      | (Inr a, w1) \<Rightarrow>
          (case call ''sitemap'' (sitemap pk) [] w1 of
             (Inl e, w2) \<Rightarrow> (Inl e, w2)
           | (Inr s, w2) \<Rightarrow>
               (case call ''defineConfig'' (defineConfig pk) [config_object a s] w2 of
                  (Inl e, w3) \<Rightarrow> (Inl e, w3)
                | (Inr v, w3) \<Rightarrow> (Inr v, w3\<lparr>exports := exports w3 @ [(''default'', v)]\<rparr>))))"

subsection \<open>The module with its imports\<close>

text \<open>
  Code of a package runs outside the module. A function of a package takes its arguments
  and the state, and gives back its outcome and the state it leaves. A package, when it
  is loaded, runs its own top-level code and gives the function that the import statement
  binds (or fails). The installed packages are a map from the specifier written in the
  import statement to the package.
\<close>

type_synonym 'x pkgfun =
  "'x jsval list \<Rightarrow> 'x world \<Rightarrow> ('x error + 'x jsval) \<times> 'x world"

type_synonym 'x package = "'x world \<Rightarrow> ('x error + 'x pkgfun) \<times> 'x world"

type_synonym 'x node_modules = "string \<Rightarrow> 'x package option"

text \<open>
  What package code can write: the environment, the command line, the files and the
  global variables. The export table of this module (and the log) are not within its reach:
  \<open>outside w' w\<close> is \<open>w\<close> with these four parts as package code left them in \<open>w'\<close>.
\<close>

definition outside :: "'x world \<Rightarrow> 'x world \<Rightarrow> 'x world" where
  "outside w' w =
     w\<lparr>env_vars := env_vars w', argv := argv w', files := files w', globals := globals w'\<rparr>"

definition ambient ::
  "'x world \<Rightarrow> (string \<Rightarrow> string option) \<times> string list \<times> (string \<Rightarrow> string option)
      \<times> (string \<times> 'x jsval) list" where
  "ambient w = (env_vars w, argv w, files w, globals w)"

text \<open>Loading a package for an import statement, and calling an imported function.\<close>

definition import_from :: "'x package \<Rightarrow> 'x world \<Rightarrow> ('x error + 'x pkgfun) \<times> 'x world" where
  "import_from p w = (case p w of (r, w') \<Rightarrow> (r, outside w' w))"

definition invoke ::
  "string \<Rightarrow> 'x pkgfun \<Rightarrow> 'x jsval list \<Rightarrow> 'x world \<Rightarrow> ('x error + 'x jsval) \<times> 'x world" where
  "invoke name f args w =
     (case f args w of (r, w') \<Rightarrow> (r, (outside w' w)\<lparr>trace := trace w @ [(name, args)]\<rparr>))"

text \<open>Lines 6 to 10, with the three names bound to functions of packages.\<close>

definition export_default ::
  "'x pkgfun \<Rightarrow> 'x pkgfun \<Rightarrow> 'x pkgfun \<Rightarrow> 'x world \<Rightarrow> ('x error + 'x jsval) \<times> 'x world" where
  "export_default cloudflare_f sitemap_f defineConfig_f w =
     (case invoke ''cloudflare'' cloudflare_f [] w of
        (Inl e, w1) \<Rightarrow> (Inl e, w1)
      | (Inr a, w1) \<Rightarrow>
          (case invoke ''sitemap'' sitemap_f [] w1 of
             (Inl e, w2) \<Rightarrow> (Inl e, w2)
           | (Inr s, w2) \<Rightarrow>
               (case invoke ''defineConfig'' defineConfig_f [config_object a s] w2 of
                  (Inl e, w3) \<Rightarrow> (Inl e, w3)
                | (Inr v, w3) \<Rightarrow> (Inr v, w3\<lparr>exports := exports w3 @ [(''default'', v)]\<rparr>))))"

text \<open>
  The whole file. The three specifiers are resolved first; a missing package ends the
  evaluation before any code has run. Then the packages are loaded in the order of the
  import statements, and the statement of lines 6 to 10 is evaluated.
\<close>

definition astro_config_mjs ::
  "'x node_modules \<Rightarrow> 'x world \<Rightarrow> ('x error + 'x jsval) \<times> 'x world" where
  "astro_config_mjs nm w =
     (case nm ''@astrojs/cloudflare'' of
        None \<Rightarrow> (Inl (NotFound ''@astrojs/cloudflare''), w)
      | Some p1 \<Rightarrow>
     (case nm ''@astrojs/sitemap'' of
        None \<Rightarrow> (Inl (NotFound ''@astrojs/sitemap''), w)
      | Some p2 \<Rightarrow>
     (case nm ''astro/config'' of
        None \<Rightarrow> (Inl (NotFound ''astro/config''), w)
      | Some p3 \<Rightarrow>
     (case import_from p1 w of
        (Inl e, w1) \<Rightarrow> (Inl e, w1)
      | (Inr cloudflare_f, w1) \<Rightarrow>
     (case import_from p2 w1 of
        (Inl e, w2) \<Rightarrow> (Inl e, w2)
      | (Inr sitemap_f, w2) \<Rightarrow>
     (case import_from p3 w2 of
        (Inl e, w3) \<Rightarrow> (Inl e, w3)
      | (Inr defineConfig_f, w3) \<Rightarrow>
          export_default cloudflare_f sitemap_f defineConfig_f w3))))))"

text \<open>
  Packages that are already loaded (loading them again runs no code) and whose functions
  depend on their arguments only and have no effect.
\<close>

definition pure_fun :: "'x jsfun \<Rightarrow> 'x pkgfun" where
  "pure_fun f = (\<lambda>args st. (f args, st))"

definition loaded :: "'x pkgfun \<Rightarrow> 'x package" where
  "loaded f = (\<lambda>w. (Inr f, w))"

definition preloaded :: "'x packages \<Rightarrow> 'x node_modules" where
  "preloaded pk =
     [''@astrojs/cloudflare'' \<mapsto> loaded (pure_fun (cloudflare pk)),
      ''@astrojs/sitemap'' \<mapsto> loaded (pure_fun (sitemap pk)),
      ''astro/config'' \<mapsto> loaded (pure_fun (defineConfig pk))]"

subsection \<open>Reading a configuration\<close>

text \<open>\<open>v.k\<close> for an object \<open>v\<close>: the value of property \<open>k\<close>, if the object has it.\<close>

definition property :: "string \<Rightarrow> 'x jsval \<Rightarrow> 'x jsval option" where
  "property k v = (case v of JObj kvs \<Rightarrow> map_of kvs k | _ \<Rightarrow> None)"

text \<open>The property names of an object, in order.\<close>

definition keys :: "'x jsval \<Rightarrow> string list" where
  "keys v = (case v of JObj kvs \<Rightarrow> map fst kvs | _ \<Rightarrow> [])"

subsection \<open>Sample environments\<close>

text \<open>
  Packages that behave as Astro's do at this call site: each constructor returns an
  integration object (opaque here, tagged with the package's name) and \<open>defineConfig\<close>
  hands back the configuration it is given.
\<close>

definition sample_packages :: "string packages" where
  "sample_packages =
     \<lparr>cloudflare = (\<lambda>args. Inr (JExt ''@astrojs/cloudflare'')),
      sitemap = (\<lambda>args. Inr (JExt ''@astrojs/sitemap'')),
      defineConfig = (\<lambda>args. case args of
                                 [] \<Rightarrow> Inl (Thrown (JStr ''no configuration''))
                               | c # _ \<Rightarrow> Inr c)\<rparr>"

definition sample_config :: "string jsval" where
  "sample_config = config_object (JExt ''@astrojs/cloudflare'') (JExt ''@astrojs/sitemap'')"

definition empty_world :: "string world" where
  "empty_world =
     \<lparr>env_vars = (\<lambda>k. None), argv = [], files = (\<lambda>p. None),
      globals = [], exports = [], trace = []\<rparr>"

text \<open>
  The same packages, not yet loaded: the adapter package registers a global variable while
  it loads.
\<close>

definition registering_modules :: "string node_modules" where
  "registering_modules =
     (preloaded sample_packages)
       (''@astrojs/cloudflare'' \<mapsto>
          (\<lambda>w. (Inr (pure_fun (cloudflare sample_packages)),
                 w\<lparr>globals := globals w @ [(''loaded'', JStr ''@astrojs/cloudflare'')]\<rparr>)))"

subsection \<open>Observing an evaluation\<close>


text \<open>The calls logged, and the exports bound, between a state and a later one.\<close>

definition new_calls :: "'x world \<Rightarrow> 'x world \<Rightarrow> (string \<times> 'x jsval list) list" where
  "new_calls w w' = drop (length (trace w)) (trace w')"

definition new_exports :: "'x world \<Rightarrow> 'x world \<Rightarrow> (string \<times> 'x jsval) list" where
  "new_exports w w' = drop (length (exports w)) (exports w')"

definition times_called :: "string \<Rightarrow> (string \<times> 'x jsval list) list \<Rightarrow> nat" where
  "times_called name cs = length (filter (\<lambda>c. fst c = name) cs)"

section \<open>What an evaluation does\<close>

lemma astro_config_returns:
  assumes "astro_config pk w = (Inr v, w')"
  shows "\<exists>a s. cloudflare pk [] = Inr a \<and> sitemap pk [] = Inr s
           \<and> defineConfig pk [config_object a s] = Inr v
           \<and> w' = w\<lparr>exports := exports w @ [(''default'', v)],
                    trace := trace w @ [(''cloudflare'', []), (''sitemap'', []),
                                        (''defineConfig'', [config_object a s])]\<rparr>"
  using assms
  by (auto simp: astro_config_def call_def split: sum.splits)

lemma astro_config_value:
  assumes "fst (astro_config pk w) = Inr v"
  shows "\<exists>a s. cloudflare pk [] = Inr a \<and> sitemap pk [] = Inr s
           \<and> defineConfig pk [config_object a s] = Inr v"
  using assms
  by (auto simp: astro_config_def call_def split: sum.splits)

lemma sample_value: "fst (astro_config sample_packages empty_world) = Inr sample_config"
  by (simp add: astro_config_def call_def sample_packages_def sample_config_def)

lemma sample_defineConfig: "\<forall>c. defineConfig sample_packages [c] = Inr c"
  by (simp add: sample_packages_def)

lemma sample_run:
  "astro_config sample_packages empty_world =
     (Inr sample_config, snd (astro_config sample_packages empty_world))"
  using sample_value by (simp add: prod_eq_iff)

section \<open>The declared options\<close>

text \<open>
  C1. The default-exported configuration declares the site origin: when the module
  evaluates to a value and \<open>defineConfig\<close> hands back the object it is given, the \<open>site\<close>
  property of the default export is exactly the string
  \<open>https://tedxuniversitasbrawijaya.com\<close>.
\<close>

theorem site_is_origin_url:
  assumes "fst (astro_config pk w) = Inr v"
    and "\<forall>c. defineConfig pk [c] = Inr c"
  shows "property ''site'' v = Some (JStr ''https://tedxuniversitasbrawijaya.com'')"
proof -
  from assms(1) obtain a s where "defineConfig pk [config_object a s] = Inr v"
    using astro_config_value by blast
  with assms(2) have "v = config_object a s" by simp
  then show ?thesis by (simp add: property_def config_object_def)
qed

theorem site_is_origin_url_witness:
  "fst (astro_config sample_packages empty_world) = Inr sample_config
   \<and> (\<forall>c. defineConfig sample_packages [c] = Inr c)
   \<and> property ''site'' sample_config = Some (JStr ''https://tedxuniversitasbrawijaya.com'')"
  using site_is_origin_url [OF sample_value sample_defineConfig] sample_value sample_defineConfig
  by simp

text \<open>
  C2. The default-exported configuration selects the deployment adapter: when the module
  evaluates to a value and \<open>defineConfig\<close> hands back the object it is given, the
  \<open>adapter\<close> property of the default export is the value that \<open>cloudflare\<close> returns
  when called with no arguments.
\<close>

theorem adapter_is_cloudflare_call:
  assumes "fst (astro_config pk w) = Inr v"
    and "\<forall>c. defineConfig pk [c] = Inr c"
  shows "\<exists>a. cloudflare pk [] = Inr a \<and> property ''adapter'' v = Some a"
proof -
  from assms(1) obtain a s where
    a: "cloudflare pk [] = Inr a" and v: "defineConfig pk [config_object a s] = Inr v"
    using astro_config_value by blast
  from v assms(2) have "v = config_object a s" by simp
  then have "property ''adapter'' v = Some a"
    by (simp add: property_def config_object_def)
  with a show ?thesis by blast
qed

theorem adapter_is_cloudflare_call_witness:
  "fst (astro_config sample_packages empty_world) = Inr sample_config
   \<and> (\<forall>c. defineConfig sample_packages [c] = Inr c)
   \<and> cloudflare sample_packages [] = Inr (JExt ''@astrojs/cloudflare'')
   \<and> property ''adapter'' sample_config = Some (JExt ''@astrojs/cloudflare'')"
  using adapter_is_cloudflare_call [OF sample_value sample_defineConfig]
    sample_value sample_defineConfig
  by (simp add: sample_packages_def)

text \<open>
  C3. The default-exported configuration lists the sitemap plugin and nothing else: when
  the module evaluates to a value and \<open>defineConfig\<close> hands back the object it is given,
  the \<open>integrations\<close> property of the default export is an array whose only element is
  the value that \<open>sitemap\<close> returns when called with no arguments; the array is not empty
  and has length one.
\<close>

theorem integrations_is_sitemap_only:
  assumes "fst (astro_config pk w) = Inr v"
    and "\<forall>c. defineConfig pk [c] = Inr c"
  shows "\<exists>s xs. sitemap pk [] = Inr s \<and> property ''integrations'' v = Some (JArr xs)
           \<and> xs = [s] \<and> xs \<noteq> [] \<and> length xs = 1"
proof -
  from assms(1) obtain a s where
    s: "sitemap pk [] = Inr s" and v: "defineConfig pk [config_object a s] = Inr v"
    using astro_config_value by blast
  from v assms(2) have "v = config_object a s" by simp
  then have "property ''integrations'' v = Some (JArr [s])"
    by (simp add: property_def config_object_def)
  with s show ?thesis by simp
qed

theorem integrations_is_sitemap_only_witness:
  "fst (astro_config sample_packages empty_world) = Inr sample_config
   \<and> (\<forall>c. defineConfig sample_packages [c] = Inr c)
   \<and> sitemap sample_packages [] = Inr (JExt ''@astrojs/sitemap'')
   \<and> property ''integrations'' sample_config = Some (JArr [JExt ''@astrojs/sitemap''])"
  using integrations_is_sitemap_only [OF sample_value sample_defineConfig]
    sample_value sample_defineConfig
  by (simp add: sample_packages_def)

text \<open>
  C9. The configuration sets exactly the three options \<open>site\<close>, \<open>adapter\<close> and
  \<open>integrations\<close>: when the module evaluates to a value and \<open>defineConfig\<close> hands back
  the object it is given, these are the property names of the default export, in this
  order; a property is present exactly when it is one of the three; in particular there is
  no \<open>base\<close> and no \<open>output\<close>.
\<close>

theorem exactly_three_options:
  assumes "fst (astro_config pk w) = Inr v"
    and "\<forall>c. defineConfig pk [c] = Inr c"
  shows "keys v = [''site'', ''adapter'', ''integrations'']
         \<and> (property k v \<noteq> None) = (k \<in> {''site'', ''adapter'', ''integrations''})
         \<and> property ''base'' v = None \<and> property ''output'' v = None"
proof -
  from assms(1) obtain a s where "defineConfig pk [config_object a s] = Inr v"
    using astro_config_value by blast
  with assms(2) have "v = config_object a s" by simp
  then show ?thesis by (auto simp: property_def keys_def config_object_def)
qed

theorem exactly_three_options_witness:
  "fst (astro_config sample_packages empty_world) = Inr sample_config
   \<and> (\<forall>c. defineConfig sample_packages [c] = Inr c)
   \<and> keys sample_config = [''site'', ''adapter'', ''integrations'']
   \<and> property ''trailingSlash'' sample_config = None
   \<and> property ''base'' sample_config = None \<and> property ''output'' sample_config = None"
  using exactly_three_options [OF sample_value sample_defineConfig, of "''trailingSlash''"]
    sample_value sample_defineConfig
  by simp

section \<open>What the result depends on\<close>



section \<open>Exports and calls\<close>

text \<open>
  C10. The module exports one binding and calls each constructor once: an evaluation that
  returns \<open>v\<close> has bound \<open>default\<close> to \<open>v\<close> and no other export, and has made three calls,
  in this order: \<open>cloudflare\<close>, \<open>sitemap\<close>, \<open>defineConfig\<close>; so \<open>cloudflare()\<close> and
  \<open>sitemap()\<close> were each called exactly once, with no arguments, before the export was
  bound.
\<close>

theorem one_export_and_one_call_each:
  assumes "astro_config pk w = (Inr v, w')"
  shows "new_exports w w' = [(''default'', v)]
         \<and> map fst (new_calls w w') = [''cloudflare'', ''sitemap'', ''defineConfig'']
         \<and> times_called ''cloudflare'' (new_calls w w') = 1
         \<and> times_called ''sitemap'' (new_calls w w') = 1
         \<and> (''cloudflare'', []) \<in> set (new_calls w w')
         \<and> (''sitemap'', []) \<in> set (new_calls w w')"
proof -
  from assms obtain a s where
    "w' = w\<lparr>exports := exports w @ [(''default'', v)],
            trace := trace w @ [(''cloudflare'', []), (''sitemap'', []),
                                (''defineConfig'', [config_object a s])]\<rparr>"
    using astro_config_returns by blast
  then show ?thesis by (simp add: new_exports_def new_calls_def times_called_def)
qed

theorem one_export_and_one_call_each_witness:
  "astro_config sample_packages empty_world =
     (Inr sample_config, snd (astro_config sample_packages empty_world))
   \<and> new_exports empty_world (snd (astro_config sample_packages empty_world))
       = [(''default'', sample_config)]
   \<and> map fst (new_calls empty_world (snd (astro_config sample_packages empty_world)))
       = [''cloudflare'', ''sitemap'', ''defineConfig'']
   \<and> times_called ''cloudflare''
       (new_calls empty_world (snd (astro_config sample_packages empty_world))) = 1
   \<and> times_called ''sitemap''
       (new_calls empty_world (snd (astro_config sample_packages empty_world))) = 1"
  using one_export_and_one_call_each [OF sample_run] sample_run
  by simp

section \<open>The whole file\<close>

lemma preloaded_agrees: "astro_config_mjs (preloaded pk) w = astro_config pk w"
  by (simp add: astro_config_mjs_def preloaded_def loaded_def import_from_def
      export_default_def invoke_def pure_fun_def astro_config_def call_def outside_def
      split: sum.splits)

lemma ambient_outside: "ambient (outside w' w) = ambient w'"
  by (simp add: ambient_def outside_def)

lemma ambient_trace: "ambient (w\<lparr>trace := t\<rparr>) = ambient w"
  by (simp add: ambient_def)

lemma ambient_exports: "ambient (w\<lparr>exports := x\<rparr>) = ambient w"
  by (simp add: ambient_def)

lemma fst_import_from: "fst (import_from p w) = fst (p w)"
  by (simp add: import_from_def split: prod.splits)

lemma ambient_import_from: "ambient (snd (import_from p w)) = ambient (snd (p w))"
  by (simp add: import_from_def ambient_outside split: prod.splits)

lemma exports_import_from: "exports (snd (import_from p w)) = exports w"
  by (simp add: import_from_def outside_def split: prod.splits)


lemma ambient_invoke: "ambient (snd (invoke n f args w)) = ambient (snd (f args w))"
  by (simp add: invoke_def ambient_outside ambient_trace split: prod.splits)

lemma exports_invoke: "exports (snd (invoke n f args w)) = exports w"
  by (simp add: invoke_def outside_def split: prod.splits)

lemma export_default_frame:
  assumes c: "\<forall>args st. obs (ambient (snd (c args st))) = obs (ambient st)"
    and s: "\<forall>args st. obs (ambient (snd (s args st))) = obs (ambient st)"
    and d: "\<forall>args st. obs (ambient (snd (d args st))) = obs (ambient st)"
  shows "obs (ambient (snd (export_default c s d w))) = obs (ambient w)
         \<and> exports (snd (export_default c s d w)) =
             (case fst (export_default c s d w) of
                Inl e \<Rightarrow> exports w
              | Inr v \<Rightarrow> exports w @ [(''default'', v)])"
proof -
  obtain r1 w1 where i1: "invoke ''cloudflare'' c [] w = (r1, w1)" by force
  have k1: "obs (ambient w1) = obs (ambient w)" "exports w1 = exports w"
    using ambient_invoke [of "''cloudflare''" c "[]" w] exports_invoke [of "''cloudflare''" c "[]" w]
      c i1 by simp_all
  show ?thesis
  proof (cases r1)
    case (Inl e)
    with i1 k1 show ?thesis by (simp add: export_default_def)
  next
    case a: (Inr a)
    obtain r2 w2 where i2: "invoke ''sitemap'' s [] w1 = (r2, w2)" by force
    have k2: "obs (ambient w2) = obs (ambient w)" "exports w2 = exports w"
      using ambient_invoke [of "''sitemap''" s "[]" w1] exports_invoke [of "''sitemap''" s "[]" w1]
        s i2 k1 by simp_all
    show ?thesis
    proof (cases r2)
      case (Inl e)
      with a i1 i2 k2 show ?thesis by (simp add: export_default_def)
    next
      case b: (Inr b)
      obtain r3 w3 where
        i3: "invoke ''defineConfig'' d [config_object a b] w2 = (r3, w3)" by force
      have k3: "obs (ambient w3) = obs (ambient w)" "exports w3 = exports w"
        using ambient_invoke [of "''defineConfig''" d "[config_object a b]" w2]
          exports_invoke [of "''defineConfig''" d "[config_object a b]" w2]
          d i3 k2 by simp_all
      from a b i1 i2 i3 k3 show ?thesis
        by (cases r3) (simp_all add: export_default_def ambient_exports)
    qed
  qed
qed


lemma preloaded_loads_keep:
  "\<forall>spec p st. preloaded pk spec = Some p \<longrightarrow> obs (ambient (snd (p st))) = obs (ambient st)"
  by (auto simp: preloaded_def loaded_def split: if_splits)

lemma preloaded_calls_keep:
  "\<forall>spec p st f args u. preloaded pk spec = Some p \<longrightarrow> fst (p st) = Inr f \<longrightarrow>
      obs (ambient (snd (f args u))) = obs (ambient u)"
  by (auto simp: preloaded_def loaded_def pure_fun_def split: if_splits)

lemma registering_loads_keep_files:
  "\<forall>spec p st. registering_modules spec = Some p \<longrightarrow>
      fst (snd (snd (ambient (snd (p st))))) = fst (snd (snd (ambient st)))"
  by (auto simp: registering_modules_def preloaded_def loaded_def ambient_def split: if_splits)

lemma registering_calls_keep_files:
  "\<forall>spec p st f args u. registering_modules spec = Some p \<longrightarrow> fst (p st) = Inr f \<longrightarrow>
      fst (snd (snd (ambient (snd (f args u))))) = fst (snd (snd (ambient u)))"
  by (auto simp: registering_modules_def preloaded_def loaded_def pure_fun_def ambient_def
      split: if_splits)

lemma sample_modules_value:
  "fst (astro_config_mjs (preloaded sample_packages) empty_world) = Inr sample_config"
  by (simp add: preloaded_agrees sample_value)

section \<open>What an evaluation changes\<close>

text \<open>
  Package code can change the state: when the adapter package registers a global variable
  while it loads, the evaluation returns the configuration and leaves a global variable
  that was not there before.
\<close>

theorem loading_changes_globals_counterexample:
  "fst (astro_config_mjs registering_modules empty_world) = Inr sample_config
   \<and> globals (snd (astro_config_mjs registering_modules empty_world))
       = [(''loaded'', JStr ''@astrojs/cloudflare'')]
   \<and> globals empty_world = []"
  by (simp add: astro_config_mjs_def registering_modules_def preloaded_def loaded_def
      import_from_def export_default_def invoke_def pure_fun_def outside_def
      sample_packages_def sample_config_def empty_world_def)

text \<open>
  C7, amended. The module itself writes nothing but its default export: it declares and
  assigns no variable, so whatever can be observed of the environment variables, the
  command line, the files and the global variables, if the code of the installed packages
  leaves it unchanged (when a package loads and when one of its functions is called), then
  an evaluation of the module leaves it unchanged. The export table gains the default
  export when the evaluation returns and nothing when it fails.
\<close>

theorem module_writes_only_default_export:
  assumes loads: "\<forall>spec p st. nm spec = Some p \<longrightarrow>
                    obs (ambient (snd (p st))) = obs (ambient st)"
    and calls: "\<forall>spec p st f args u. nm spec = Some p \<longrightarrow> fst (p st) = Inr f \<longrightarrow>
                    obs (ambient (snd (f args u))) = obs (ambient u)"
  shows "obs (ambient (snd (astro_config_mjs nm w))) = obs (ambient w)
         \<and> exports (snd (astro_config_mjs nm w)) =
             (case fst (astro_config_mjs nm w) of
                Inl e \<Rightarrow> exports w
              | Inr v \<Rightarrow> exports w @ [(''default'', v)])"
proof (cases "\<exists>p1 p2 p3. nm ''@astrojs/cloudflare'' = Some p1 \<and> nm ''@astrojs/sitemap'' = Some p2
                 \<and> nm ''astro/config'' = Some p3")
  case False
  then show ?thesis
    by (auto simp: astro_config_mjs_def split: option.splits)
next
  case True
  then obtain p1 p2 p3 where
    n1: "nm ''@astrojs/cloudflare'' = Some p1" and n2: "nm ''@astrojs/sitemap'' = Some p2"
    and n3: "nm ''astro/config'' = Some p3" by blast
  obtain r1 w1 where i1: "import_from p1 w = (r1, w1)" by force
  have k1: "obs (ambient w1) = obs (ambient w)" "exports w1 = exports w"
    using ambient_import_from [of p1 w] exports_import_from [of p1 w] loads n1 i1 by simp_all
  have e1: "fst (p1 w) = r1"
    using fst_import_from [of p1 w] i1 by simp
  show ?thesis
  proof (cases r1)
    case (Inl e)
    with n1 n2 n3 i1 k1 show ?thesis by (simp add: astro_config_mjs_def)
  next
    case f1: (Inr f1)
    obtain r2 w2 where i2: "import_from p2 w1 = (r2, w2)" by force
    have k2: "obs (ambient w2) = obs (ambient w)" "exports w2 = exports w"
      using ambient_import_from [of p2 w1] exports_import_from [of p2 w1] loads n2 i2 k1
      by simp_all
    have e2: "fst (p2 w1) = r2"
      using fst_import_from [of p2 w1] i2 by simp
    show ?thesis
    proof (cases r2)
      case (Inl e)
      with f1 n1 n2 n3 i1 i2 k2 show ?thesis by (simp add: astro_config_mjs_def)
    next
      case f2: (Inr f2)
      obtain r3 w3 where i3: "import_from p3 w2 = (r3, w3)" by force
      have k3: "obs (ambient w3) = obs (ambient w)" "exports w3 = exports w"
        using ambient_import_from [of p3 w2] exports_import_from [of p3 w2] loads n3 i3 k2
        by simp_all
      have e3: "fst (p3 w2) = r3"
        using fst_import_from [of p3 w2] i3 by simp
      show ?thesis
      proof (cases r3)
        case (Inl e)
        with f1 f2 n1 n2 n3 i1 i2 i3 k3 show ?thesis by (simp add: astro_config_mjs_def)
      next
        case f3: (Inr f3)
        have c1: "\<forall>args st. obs (ambient (snd (f1 args st))) = obs (ambient st)"
          using calls n1 e1 f1 by metis
        have c2: "\<forall>args st. obs (ambient (snd (f2 args st))) = obs (ambient st)"
          using calls n2 e2 f2 by metis
        have c3: "\<forall>args st. obs (ambient (snd (f3 args st))) = obs (ambient st)"
          using calls n3 e3 f3 by metis
        have "astro_config_mjs nm w = export_default f1 f2 f3 w3"
          using f1 f2 f3 n1 n2 n3 i1 i2 i3 by (simp add: astro_config_mjs_def)
        with export_default_frame [OF c1 c2 c3, of w3] k3 show ?thesis
          by (simp split: sum.splits)
      qed
    qed
  qed
qed

theorem module_writes_only_default_export_witness:
  "ambient (snd (astro_config_mjs (preloaded sample_packages) empty_world)) = ambient empty_world
   \<and> fst (astro_config_mjs (preloaded sample_packages) empty_world) = Inr sample_config
   \<and> exports (snd (astro_config_mjs (preloaded sample_packages) empty_world))
       = [(''default'', sample_config)]
   \<and> files (snd (astro_config_mjs registering_modules empty_world)) = files empty_world"
  using module_writes_only_default_export
      [where nm = "preloaded sample_packages" and obs = "\<lambda>a. a" and w = empty_world,
       OF preloaded_loads_keep preloaded_calls_keep]
    module_writes_only_default_export
      [where nm = registering_modules and obs = "\<lambda>a. fst (snd (snd a))" and w = empty_world,
       OF registering_loads_keep_files registering_calls_keep_files]
    sample_modules_value
  by (simp add: empty_world_def ambient_def)

section \<open>Whether an evaluation fails\<close>







end
